theory Spec2Isabelle
  imports Complex_Main
begin

section \<open>Values\<close>

text \<open>
  A value of a numeric (float64) pandas column is either a number or the not-a-number
  marker. Numbers are taken as exact reals: rounding, overflow and the infinities of
  the machine format are outside this development. What matters for the pipeline is
  how NaN behaves: every ordering comparison with NaN is false, and arithmetic with a
  NaN operand yields NaN.
\<close>

datatype pyfloat = Num real | NaN

definition py_le :: "pyfloat \<Rightarrow> real \<Rightarrow> bool" where
  "py_le x c = (case x of Num r \<Rightarrow> r \<le> c | NaN \<Rightarrow> False)"

definition py_gt :: "pyfloat \<Rightarrow> real \<Rightarrow> bool" where
  "py_gt x c = (case x of Num r \<Rightarrow> r > c | NaN \<Rightarrow> False)"

definition py_mul :: "pyfloat \<Rightarrow> real \<Rightarrow> pyfloat" where
  "py_mul x c = (case x of Num r \<Rightarrow> Num (r * c) | NaN \<Rightarrow> NaN)"

definition py_add :: "pyfloat \<Rightarrow> pyfloat \<Rightarrow> pyfloat" where
  "py_add x y = (case x of NaN \<Rightarrow> NaN
                 | Num a \<Rightarrow> (case y of NaN \<Rightarrow> NaN | Num b \<Rightarrow> Num (a + b)))"

definition isna :: "pyfloat \<Rightarrow> bool" where
  "isna x = (case x of NaN \<Rightarrow> True | Num _ \<Rightarrow> False)"

text \<open>
  The Python exceptions that leave one of the modelled functions. \<open>Propagated\<close> stands
  for any exception that the extraction's \<^verbatim>\<open>except requests.RequestException\<close> clause
  does not catch.
\<close>

datatype py_error =
  Propagated | ZeroDivisionError | ValueError | KeyError | TypeError | AttributeError

text \<open>Results are sums, \<open>Inl\<close> an exception; \<open>and_then\<close> sequences two steps.\<close>

definition and_then :: "py_error + 'a \<Rightarrow> ('a \<Rightarrow> py_error + 'b) \<Rightarrow> py_error + 'b" where
  "and_then m k = (case m of Inl e \<Rightarrow> Inl e | Inr x \<Rightarrow> k x)"

text \<open>A loop that maps a fallible step over a list and stops at the first exception.\<close>

fun traverse :: "('a \<Rightarrow> py_error + 'b) \<Rightarrow> 'a list \<Rightarrow> py_error + 'b list" where
  "traverse g [] = Inr []"
| "traverse g (x # xs) =
     (case g x of
        Inl e \<Rightarrow> Inl e
      | Inr y \<Rightarrow> (case traverse g xs of Inl e \<Rightarrow> Inl e | Inr ys \<Rightarrow> Inr (y # ys)))"

section \<open>Data frames\<close>

text \<open>
  The part of pandas that the pipeline uses. A cell holds a float (JSON numbers; JSON
  \<^verbatim>\<open>null\<close> is the float NaN, which pandas treats like \<^verbatim>\<open>None\<close> in every operation used
  here), a text, or a timestamp, where \<open>Time None\<close> is \<^verbatim>\<open>NaT\<close>. Other JSON values do not
  occur in the hourly arrays of the source API and are left out.
\<close>

record timestamp =
  year :: int
  month :: nat
  day :: nat
  hour :: nat
  minute :: nat
  second :: nat

datatype cell = Flt pyfloat | Str string | Time "timestamp option"

text \<open>
  A frame is its list of column names and its rows; a row gives the cell under each
  column name (what it gives under other names is never read).
\<close>

record frame =
  cols :: "string list"
  rws :: "(string \<Rightarrow> cell) list"

text \<open>
  The parsers of pandas are parameters: what \<^verbatim>\<open>pd.to_numeric(errors="coerce")\<close> makes of a
  text and of a timestamp, and what \<^verbatim>\<open>pd.to_datetime(errors="coerce")\<close> makes of a column
  at each position (it may infer a format from the whole column).
\<close>

record pandas =
  str_to_numeric :: "string \<Rightarrow> pyfloat"
  time_to_numeric :: "timestamp option \<Rightarrow> real"
  to_datetime :: "cell list \<Rightarrow> nat \<Rightarrow> timestamp option"

text \<open>\<^verbatim>\<open>pd.DataFrame()\<close> and \<^verbatim>\<open>df.empty\<close> (no row or no column).\<close>

definition empty_frame :: frame where
  "empty_frame = \<lparr>cols = [], rws = []\<rparr>"

definition df_empty :: "frame \<Rightarrow> bool" where
  "df_empty df = (rws df = [] \<or> cols df = [])"

text \<open>
  Column assignment \<^verbatim>\<open>df[c] = ...\<close>: a new column goes last, an existing one keeps its
  place. The new cells are given per row, as a list aligned with the rows, or per row by
  a function that may raise.
\<close>

definition add_col :: "string list \<Rightarrow> string \<Rightarrow> string list" where
  "add_col cs c = (if c \<in> set cs then cs else cs @ [c])"

definition assign :: "frame \<Rightarrow> string \<Rightarrow> ((string \<Rightarrow> cell) \<Rightarrow> cell) \<Rightarrow> frame" where
  "assign df c g = \<lparr>cols = add_col (cols df) c, rws = map (\<lambda>r. r(c := g r)) (rws df)\<rparr>"

definition assign_values :: "frame \<Rightarrow> string \<Rightarrow> cell list \<Rightarrow> frame" where
  "assign_values df c vs =
     \<lparr>cols = add_col (cols df) c, rws = map (\<lambda>(r, v). r(c := v)) (zip (rws df) vs)\<rparr>"

definition assign_result ::
  "frame \<Rightarrow> string \<Rightarrow> ((string \<Rightarrow> cell) \<Rightarrow> py_error + cell) \<Rightarrow> py_error + frame" where
  "assign_result df c g =
     and_then (traverse (\<lambda>r. and_then (g r) (\<lambda>v. Inr (r(c := v)))) (rws df))
       (\<lambda>rs. Inr \<lparr>cols = add_col (cols df) c, rws = rs\<rparr>)"

text \<open>
  \<^verbatim>\<open>df[dst] = df[src].apply(g)\<close> and the like: reading a column that the frame does not
  have raises \<^verbatim>\<open>KeyError\<close>.
\<close>

definition column_apply ::
  "frame \<Rightarrow> string \<Rightarrow> string \<Rightarrow> (cell \<Rightarrow> py_error + cell) \<Rightarrow> py_error + frame" where
  "column_apply df dst src g =
     (if src \<notin> set (cols df) then Inl KeyError else assign_result df dst (\<lambda>r. g (r src)))"

text \<open>\<^verbatim>\<open>pd.to_numeric(v, errors="coerce")\<close> on one cell, and \<^verbatim>\<open>isna\<close>.\<close>

definition to_numeric :: "pandas \<Rightarrow> cell \<Rightarrow> pyfloat" where
  "to_numeric lib v =
     (case v of
        Flt x \<Rightarrow> x
      | Str s \<Rightarrow> str_to_numeric lib s
      | Time t \<Rightarrow> Num (time_to_numeric lib t))"

definition cell_isna :: "cell \<Rightarrow> bool" where
  "cell_isna v = (case v of Flt x \<Rightarrow> isna x | Str s \<Rightarrow> False | Time t \<Rightarrow> t = None)"

text \<open>
  \<^verbatim>\<open>df.dropna(subset=among, how="all")\<close>: a row goes when every cell under the given
  columns is missing.
\<close>

definition dropna_all :: "frame \<Rightarrow> string list \<Rightarrow> py_error + frame" where
  "dropna_all df among =
     (if \<not> list_all (\<lambda>c. c \<in> set (cols df)) among then Inl KeyError
      else Inr (df\<lparr>rws := filter (\<lambda>r. \<not> list_all (\<lambda>c. cell_isna (r c)) among) (rws df)\<rparr>))"

text \<open>
  The row that \<^verbatim>\<open>df.apply(f, axis=1)\<close> hands to \<^verbatim>\<open>f\<close>: a Series indexed by the columns;
  and \<^verbatim>\<open>row.get(k, d)\<close>, which gives the default only when the key is not in the index.
\<close>

definition series :: "frame \<Rightarrow> (string \<Rightarrow> cell) \<Rightarrow> (string \<rightharpoonup> cell)" where
  "series df r = (\<lambda>k. if k \<in> set (cols df) then Some (r k) else None)"

definition row_get :: "(string \<rightharpoonup> cell) \<Rightarrow> string \<Rightarrow> cell \<Rightarrow> cell" where
  "row_get row k d = (case row k of None \<Rightarrow> d | Some v \<Rightarrow> v)"






section \<open>Transform (AtmosTrack transform.py)\<close>

text \<open>\<^verbatim>\<open>compute_aqi(pm2_5)\<close>: the if/elif chain on the PM2.5 value.\<close>

definition compute_aqi :: "pyfloat \<Rightarrow> string" where
  "compute_aqi pm2_5 =
     (if py_le pm2_5 50 then ''Good''
      else if py_le pm2_5 100 then ''Moderate''
      else if py_le pm2_5 200 then ''Unhealthy''
      else if py_le pm2_5 300 then ''Very Unhealthy''
      else ''Hazardous'')"

text \<open>
  \<^verbatim>\<open>compute_severity(row)\<close>: six products \<^verbatim>\<open>row.get(k, 0) * w\<close>, added from left to right.
  The arithmetic is that of floats. A cell that is not a float is reported as
  \<^verbatim>\<open>TypeError\<close>; the transform only applies the function to rows whose six cells are
  floats.
\<close>

definition as_float :: "cell \<Rightarrow> py_error + pyfloat" where
  "as_float v = (case v of Flt x \<Rightarrow> Inr x | Str s \<Rightarrow> Inl TypeError | Time t \<Rightarrow> Inl TypeError)"

definition times :: "cell \<Rightarrow> real \<Rightarrow> py_error + pyfloat" where
  "times v w = and_then (as_float v) (\<lambda>x. Inr (py_mul x w))"

definition plus :: "py_error + pyfloat \<Rightarrow> py_error + pyfloat \<Rightarrow> py_error + pyfloat" where
  "plus a b = and_then a (\<lambda>x. and_then b (\<lambda>y. Inr (py_add x y)))"

definition compute_severity :: "(string \<rightharpoonup> cell) \<Rightarrow> py_error + pyfloat" where
  "compute_severity row =
     plus (plus (plus (plus (plus
       (times (row_get row ''pm2_5'' (Flt (Num 0))) 5)
       (times (row_get row ''pm10'' (Flt (Num 0))) 3))
       (times (row_get row ''nitrogen_dioxide'' (Flt (Num 0))) 4))
       (times (row_get row ''sulphur_dioxide'' (Flt (Num 0))) 4))
       (times (row_get row ''carbon_monoxide'' (Flt (Num 0))) 2))
       (times (row_get row ''ozone'' (Flt (Num 0))) 3)"

text \<open>\<^verbatim>\<open>classify_risk(severity)\<close>.\<close>

definition classify_risk :: "pyfloat \<Rightarrow> string" where
  "classify_risk severity =
     (if py_gt severity 400 then ''High Risk''
      else if py_gt severity 200 then ''Moderate Risk''
      else ''Low Risk'')"

text \<open>
  The two column lists of \<^verbatim>\<open>transform_city_file\<close>: the columns made numeric, and the
  \<^verbatim>\<open>subset\<close> of the \<^verbatim>\<open>dropna\<close> call, which leaves \<^verbatim>\<open>uv_index\<close> out.
\<close>

definition NUMERIC_COLS :: "string list" where
  "NUMERIC_COLS = [''pm10'', ''pm2_5'', ''carbon_monoxide'', ''nitrogen_dioxide'', ''ozone'',
                   ''sulphur_dioxide'', ''uv_index'']"

definition POLLUTANTS :: "string list" where
  "POLLUTANTS = [''pm10'', ''pm2_5'', ''carbon_monoxide'', ''nitrogen_dioxide'', ''ozone'',
                 ''sulphur_dioxide'']"

text \<open>
  One pass of the loop \<^verbatim>\<open>df[col] = pd.to_numeric(df.get(col, 0), errors="coerce")\<close>, and
  the loop. \<^verbatim>\<open>df.get(col, 0)\<close> is the column when the frame has it and the number 0
  otherwise, so a column that the artifact lacks is filled with zeros.
\<close>

definition convert_column :: "pandas \<Rightarrow> frame \<Rightarrow> string \<Rightarrow> frame" where
  "convert_column lib df c =
     assign df c (\<lambda>r. Flt (if c \<in> set (cols df) then to_numeric lib (r c) else Num 0))"

definition convert_numeric :: "pandas \<Rightarrow> frame \<Rightarrow> frame" where
  "convert_numeric lib df = foldl (convert_column lib) df NUMERIC_COLS"

text \<open>\<^verbatim>\<open>df["time"] = pd.to_datetime(df["time"], errors="coerce")\<close>.\<close>

definition parse_time :: "pandas \<Rightarrow> frame \<Rightarrow> py_error + frame" where
  "parse_time lib df =
     (if ''time'' \<notin> set (cols df) then Inl KeyError
      else Inr (assign_values df ''time''
             (map (\<lambda>i. Time (to_datetime lib (map (\<lambda>r. r ''time'') (rws df)) i))
                  [0..<length (rws df)])))"

text \<open>\<^verbatim>\<open>.dt.hour\<close> on one cell of a datetime column; the hour of \<^verbatim>\<open>NaT\<close> is NaN.\<close>

definition dt_hour :: "cell \<Rightarrow> py_error + cell" where
  "dt_hour v =
     (case v of
        Time None \<Rightarrow> Inr (Flt NaN)
      | Time (Some t) \<Rightarrow> Inr (Flt (Num (real (hour t))))
      | Flt x \<Rightarrow> Inl AttributeError
      | Str s \<Rightarrow> Inl AttributeError)"

text \<open>\<^verbatim>\<open>file_path.stem.split("_raw_")[0]\<close>: the stem up to the first \<^verbatim>\<open>_raw_\<close>.\<close>

fun city_name :: "string \<Rightarrow> string" where
  "city_name [] = []"
| "city_name (c # cs) =
     (if take 5 (c # cs) = ''_raw_'' then [] else c # city_name cs)"

text \<open>
  A raw artifact: the stem of its file name and what its content amounts to. The file
  is not JSON (\<^verbatim>\<open>json.load\<close> raises a \<^verbatim>\<open>ValueError\<close>); or its top level is not an object
  (\<^verbatim>\<open>data.get\<close> raises \<^verbatim>\<open>AttributeError\<close>); or it has no \<^verbatim>\<open>hourly\<close> entry or an empty one;
  or the entry is one that \<^verbatim>\<open>pd.DataFrame\<close> rejects with a \<^verbatim>\<open>ValueError\<close> (arrays of
  different lengths); or the entry makes a frame.
\<close>

datatype payload = Malformed | NotAnObject | NoHourly | BadHourly | Hourly frame

record artifact =
  stem :: string
  payload :: payload

text \<open>\<^verbatim>\<open>transform_city_file(file_path)\<close>, statement by statement.\<close>

definition transform_city_file :: "pandas \<Rightarrow> artifact \<Rightarrow> py_error + frame" where
  "transform_city_file lib file =
     (case payload file of
        Malformed \<Rightarrow> Inl ValueError
      | NotAnObject \<Rightarrow> Inl AttributeError
      | NoHourly \<Rightarrow> Inr empty_frame
      | BadHourly \<Rightarrow> Inl ValueError
      | Hourly df \<Rightarrow>
          if df_empty df then Inr empty_frame
          else
            and_then (dropna_all
                        (convert_numeric lib (assign df ''city'' (\<lambda>r. Str (city_name (stem file)))))
                        POLLUTANTS)
            (\<lambda>df. and_then (parse_time lib df)
            (\<lambda>df. and_then (column_apply df ''hour'' ''time'' dt_hour)
            (\<lambda>df. and_then (column_apply df ''AQI_category'' ''pm2_5''
                               (\<lambda>v. and_then (as_float v) (\<lambda>x. Inr (Str (compute_aqi x)))))
            (\<lambda>df. and_then (assign_result df ''severity''
                               (\<lambda>r. and_then (compute_severity (series df r)) (\<lambda>s. Inr (Flt s))))
            (\<lambda>df. column_apply df ''risk'' ''severity''
                               (\<lambda>v. and_then (as_float v) (\<lambda>s. Inr (Str (classify_risk s))))))))))"


section \<open>Extraction (AtmosTrack extract.py)\<close>

text \<open>The module constants.\<close>

definition MAX_RETRIES :: nat where
  "MAX_RETRIES = 3"



text \<open>
  What one pass through the \<^verbatim>\<open>try\<close> block of \<^verbatim>\<open>fetch_city\<close> does: the GET, the status
  check, the JSON decoding and \<^verbatim>\<open>save_raw\<close> all succeed and the payload is written to a
  path; or a \<^verbatim>\<open>requests.RequestException\<close> is raised, which the loop catches; or some
  other exception is raised, which nothing catches. The source API is an oracle giving
  this outcome for a city and an attempt number: within one run every city is fetched
  once, so the pair identifies the call.
\<close>

datatype response = Saved string | RequestException | OtherException

text \<open>
  The observable actions of the extraction, in order: a request of a city at an attempt
  number, and a \<^verbatim>\<open>time.sleep\<close> of a number of seconds. Console output is not modelled.
\<close>

datatype event = Request string nat | Sleep real

text \<open>The dictionary that \<^verbatim>\<open>fetch_city\<close> returns; an absent key is \<open>None\<close>.\<close>

record fetch_result =
  city :: string
  success :: bool
  raw_path :: "string option"
  error :: "string option"

text \<open>Decimal text of a natural number, for the f-string of the failure message.\<close>

definition digit :: "nat \<Rightarrow> char" where
  "digit n = ''0123456789'' ! n"

function str_nat :: "nat \<Rightarrow> string" where
  "str_nat n = (if n < 10 then [digit n] else str_nat (n div 10) @ [digit (n mod 10)])"
  by pat_completeness auto

termination
  by (relation "measure id") auto

declare str_nat.simps [simp del]

text \<open>
  The loop \<^verbatim>\<open>for attempt in range(1, MAX_RETRIES + 1)\<close> of \<^verbatim>\<open>fetch_city\<close>, from a given
  attempt number on. A caught failure sleeps \<^verbatim>\<open>2 ** (attempt - 1)\<close> seconds when
  \<^verbatim>\<open>attempt < MAX_RETRIES\<close>; when the range is used up the function returns the failure
  dictionary. The result is the returned dictionary or the propagated exception,
  together with the actions performed.
\<close>

function fetch_attempts ::
  "(string \<Rightarrow> nat \<Rightarrow> response) \<Rightarrow> string \<Rightarrow> nat \<Rightarrow> (py_error + fetch_result) \<times> event list" where
  "fetch_attempts api c attempt =
     (if attempt > MAX_RETRIES then
        (Inr \<lparr>city = c, success = False, raw_path = None,
              error = Some (''Failed after '' @ str_nat MAX_RETRIES @ '' attempts'')\<rparr>, [])
      else
        (case api c attempt of
           Saved path \<Rightarrow>
             (Inr \<lparr>city = c, success = True, raw_path = Some path, error = None\<rparr>,
              [Request c attempt])
         | OtherException \<Rightarrow> (Inl Propagated, [Request c attempt])
         | RequestException \<Rightarrow>
             (let (r, es) = fetch_attempts api c (attempt + 1)
              in (r, Request c attempt #
                     (if attempt < MAX_RETRIES then [Sleep (2 ^ (attempt - 1))] else []) @ es))))"
  by pat_completeness auto

termination
  by (relation "measure (\<lambda>(api, c, attempt). Suc MAX_RETRIES - attempt)") auto

declare fetch_attempts.simps [simp del]

text \<open>
  \<^verbatim>\<open>fetch_city(city, lat, lon)\<close>. The coordinates only parameterise the request, whose
  outcome the oracle gives.
\<close>

definition fetch_city ::
  "(string \<Rightarrow> nat \<Rightarrow> response) \<Rightarrow> string \<Rightarrow> real \<Rightarrow> real \<Rightarrow> (py_error + fetch_result) \<times> event list" where
  "fetch_city api c lat lon = fetch_attempts api c 1"



section \<open>Load (AtmosTrack load.py)\<close>

text \<open>
  The three settings that \<^verbatim>\<open>load.py\<close> reads from the environment with \<^verbatim>\<open>int(os.getenv(...))\<close>,
  and their defaults.
\<close>

record load_config =
  BATCH_SIZE :: int
  LOAD_MAX_RETRIES :: int
  LOAD_BACKOFF_SECONDS :: int

definition default_config :: load_config where
  "default_config = \<lparr>BATCH_SIZE = 200, LOAD_MAX_RETRIES = 2, LOAD_BACKOFF_SECONDS = 3\<rparr>"

text \<open>
  The observable actions of the load, in order: an insert call for a numbered batch, a
  \<^verbatim>\<open>time.sleep\<close> between attempts, and the closing line of \<^verbatim>\<open>load_data\<close>, which prints the
  inserted count and the record count. Other console output is not modelled.
\<close>

datatype 'r load_event = Insert nat "'r list" | Backoff int | Summary nat nat

text \<open>
  The inner loop \<^verbatim>\<open>while attempt <= LOAD_MAX_RETRIES\<close> of \<^verbatim>\<open>insert_batches\<close> for one batch,
  from a given value of \<^verbatim>\<open>attempt\<close> on. The sink is an oracle: for a batch number and the
  current value of \<^verbatim>\<open>attempt\<close> it tells whether the insert call returns without an
  exception and without an error in the response. The loop catches every exception of
  the insert; \<^verbatim>\<open>time.sleep\<close> inside the handler raises \<^verbatim>\<open>ValueError\<close> on a negative delay.
  The boolean result tells whether the batch was inserted.
\<close>

function insert_attempts ::
  "load_config \<Rightarrow> (nat \<Rightarrow> nat \<Rightarrow> bool) \<Rightarrow> nat \<Rightarrow> 'r list \<Rightarrow> nat
     \<Rightarrow> (py_error + bool) \<times> 'r load_event list" where
  "insert_attempts cfg sink batch_no batch attempt =
     (if int attempt \<le> LOAD_MAX_RETRIES cfg then
        (if sink batch_no attempt then (Inr True, [Insert batch_no batch])
         else if int (attempt + 1) > LOAD_MAX_RETRIES cfg then
           (Inr False, [Insert batch_no batch])
         else if LOAD_BACKOFF_SECONDS cfg < 0 then
           (Inl ValueError, [Insert batch_no batch])
         else
           (let (r, es) = insert_attempts cfg sink batch_no batch (attempt + 1)
            in (r, Insert batch_no batch # Backoff (LOAD_BACKOFF_SECONDS cfg) # es)))
      else (Inr False, []))"
  by pat_completeness auto

termination
  by (relation "measure (\<lambda>(cfg, sink, batch_no, batch, attempt).
        nat (LOAD_MAX_RETRIES cfg + 1 - int attempt))") auto

declare insert_attempts.simps [simp del]

text \<open>
  The outer loop \<^verbatim>\<open>for idx in range(0, total, BATCH_SIZE)\<close> for a positive step, from a
  given index on, with the running count \<^verbatim>\<open>inserted\<close>. The batch is the slice
  \<^verbatim>\<open>records[idx: idx + BATCH_SIZE]\<close> and its number is \<^verbatim>\<open>idx // BATCH_SIZE + 1\<close>.
\<close>

function insert_from ::
  "load_config \<Rightarrow> (nat \<Rightarrow> nat \<Rightarrow> bool) \<Rightarrow> 'r list \<Rightarrow> nat \<Rightarrow> nat \<Rightarrow> nat
     \<Rightarrow> (py_error + nat) \<times> 'r load_event list" where
  "insert_from cfg sink records step idx inserted =
     (if idx < length records \<and> 0 < step then
        (let batch = take step (drop idx records);
             batch_no = idx div step + 1
         in case insert_attempts cfg sink batch_no batch 0 of
              (Inl e, es) \<Rightarrow> (Inl e, es)
            | (Inr ok, es) \<Rightarrow>
                (let (r, es') = insert_from cfg sink records step (idx + step)
                                  (if ok then inserted + length batch else inserted)
                 in (r, es @ es')))
      else (Inr inserted, []))"
  by pat_completeness auto

termination
  by (relation "measure (\<lambda>(cfg, sink, records, step, idx, inserted). length records - idx)") auto

declare insert_from.simps [simp del]

text \<open>
  \<^verbatim>\<open>insert_batches(records)\<close>. It returns the count of inserted records and nothing else.
  \<^verbatim>\<open>math.ceil(total / BATCH_SIZE)\<close> raises on a zero batch size; a negative step makes the
  range empty.
\<close>

definition insert_batches ::
  "load_config \<Rightarrow> (nat \<Rightarrow> nat \<Rightarrow> bool) \<Rightarrow> 'r list \<Rightarrow> (py_error + nat) \<times> 'r load_event list" where
  "insert_batches cfg sink records =
     (let total = length records; inserted = 0 in
      if total = 0 then (Inr inserted, [])
      else if BATCH_SIZE cfg = 0 then (Inl ZeroDivisionError, [])
      else if BATCH_SIZE cfg < 0 then (Inr inserted, [])
      else insert_from cfg sink records (nat (BATCH_SIZE cfg)) 0 inserted)"

text \<open>
  \<^verbatim>\<open>load_data()\<close>: without a staged file it returns at once; otherwise it reads the file,
  turns it into records with \<^verbatim>\<open>normalize_and_prepare\<close> (one record per staged row, taken
  here as a parameter), inserts them and prints the summary. It returns \<^verbatim>\<open>None\<close>.
\<close>

definition load_data ::
  "load_config \<Rightarrow> (nat \<Rightarrow> nat \<Rightarrow> bool) \<Rightarrow> ('df \<Rightarrow> 'r list) \<Rightarrow> 'df option
     \<Rightarrow> (py_error + unit) \<times> 'r load_event list" where
  "load_data cfg sink normalize_and_prepare staged_file =
     (case staged_file of
        None \<Rightarrow> (Inr (), [])
      | Some df \<Rightarrow>
          (let records = normalize_and_prepare df
           in case insert_batches cfg sink records of
                (Inl e, es) \<Rightarrow> (Inl e, es)
              | (Inr inserted, es) \<Rightarrow> (Inr (), es @ [Summary inserted (length records)])))"

section \<open>Validator (task3 validate.py) and the contract code (task3 transform.py)\<close>

text \<open>
  The contract code of \<^verbatim>\<open>transform_telecom_data\<close>: the \<^verbatim>\<open>map\<close> of the three contract names
  followed by \<^verbatim>\<open>fillna(0)\<close>.
\<close>

definition contract_type_code :: "cell \<Rightarrow> pyfloat" where
  "contract_type_code contract =
     (if contract = Str ''Month-to-month'' then Num 0
      else if contract = Str ''One year'' then Num 1
      else if contract = Str ''Two year'' then Num 2
      else Num 0)"

text \<open>
  Check 5 of \<^verbatim>\<open>validate()\<close>, the two entries \<^verbatim>\<open>contract_codes_present\<close> and
  \<^verbatim>\<open>contract_codes_ok\<close> of its result: the distinct non-missing values of the column (none
  when the staged table lacks the column), and whether they all lie in the set written in
  the code. The other checks of \<^verbatim>\<open>validate()\<close> do not enter these two entries.
\<close>

definition contract_codes_present :: "frame \<Rightarrow> cell set" where
  "contract_codes_present df_staged =
     (if ''contract_type_code'' \<in> set (cols df_staged)
      then set (filter (\<lambda>v. \<not> cell_isna v) (map (\<lambda>r. r ''contract_type_code'') (rws df_staged)))
      else {})"

definition contract_codes_ok :: "frame \<Rightarrow> bool" where
  "contract_codes_ok df_staged =
     (contract_codes_present df_staged
        \<subseteq> {Flt (Num (- 1)), Flt (Num 0), Flt (Num 1), Flt (Num 2)})"

section \<open>Reading results\<close>

text \<open>The requests and the sleeps of an extraction trace, and the insert calls of a load trace.\<close>

fun requests :: "event list \<Rightarrow> (string \<times> nat) list" where
  "requests [] = []"
| "requests (Request c a # es) = (c, a) # requests es"
| "requests (Sleep d # es) = requests es"

fun sleeps :: "event list \<Rightarrow> real list" where
  "sleeps [] = []"
| "sleeps (Request c a # es) = sleeps es"
| "sleeps (Sleep d # es) = d # sleeps es"

fun inserts :: "'r load_event list \<Rightarrow> (nat \<times> 'r list) list" where
  "inserts [] = []"
| "inserts (Insert n b # es) = (n, b) # inserts es"
| "inserts (e # es) = inserts es"

text \<open>
  All attempts of a city fail with the caught exception; and the failure dictionary for
  the three attempts.
\<close>

definition exhausts :: "(string \<Rightarrow> nat \<Rightarrow> response) \<Rightarrow> string \<Rightarrow> bool" where
  "exhausts api c = list_all (\<lambda>a. api c a = RequestException) [1..<Suc MAX_RETRIES]"

definition failure_record :: "string \<Rightarrow> fetch_result" where
  "failure_record c =
     \<lparr>city = c, success = False, raw_path = None, error = Some ''Failed after 3 attempts''\<rparr>"

text \<open>
  The weighted sum of six floats in float arithmetic, in the order in which
  \<^verbatim>\<open>compute_severity\<close> adds them.
\<close>

definition linear_combination ::
  "pyfloat \<Rightarrow> pyfloat \<Rightarrow> pyfloat \<Rightarrow> pyfloat \<Rightarrow> pyfloat \<Rightarrow> pyfloat \<Rightarrow> pyfloat" where
  "linear_combination pm2_5 pm10 no2 so2 co o3 =
     py_add (py_add (py_add (py_add (py_add
       (py_mul pm2_5 5) (py_mul pm10 3)) (py_mul no2 4)) (py_mul so2 4)) (py_mul co 2)) (py_mul o3 3)"

text \<open>
  How a row that survives \<^verbatim>\<open>dropna\<close> relates to the row the transform makes of it: its six
  pollutant cells are floats, and five cells are set, to the parsed time, the hour, the
  label of the PM2.5 value, the weighted sum and the tier of the weighted sum.
\<close>

definition derived_row :: "(string \<Rightarrow> cell) \<Rightarrow> (string \<Rightarrow> cell) \<Rightarrow> bool" where
  "derived_row r r' =
     (\<exists>t h a b c d e f.
        r ''pm2_5'' = Flt a \<and> r ''pm10'' = Flt b \<and> r ''nitrogen_dioxide'' = Flt c
        \<and> r ''sulphur_dioxide'' = Flt d \<and> r ''carbon_monoxide'' = Flt e \<and> r ''ozone'' = Flt f
        \<and> r' = r(''time'' := Time t, ''hour'' := Flt h,
                  ''AQI_category'' := Str (compute_aqi a),
                  ''severity'' := Flt (linear_combination a b c d e f),
                  ''risk'' := Str (classify_risk (linear_combination a b c d e f))))"


text \<open>
  The cells of a result frame under the given columns, row by row; and the staged file
  of a result of \<^verbatim>\<open>transform_all\<close>.
\<close>

definition column_values :: "string list \<Rightarrow> py_error + frame \<Rightarrow> py_error + cell list list" where
  "column_values cs res =
     (case res of Inl e \<Rightarrow> Inl e | Inr df \<Rightarrow> Inr (map (\<lambda>r. map r cs) (rws df)))"


section \<open>Example inputs\<close>

text \<open>A source API that is down for Mumbai and answers for every other city.\<close>

definition mumbai_down :: "string \<Rightarrow> nat \<Rightarrow> response" where
  "mumbai_down c a = (if c = ''Mumbai'' then RequestException else Saved (c @ ''.json''))"

text \<open>
  A staged table of 450 records, and two sinks: one rejects every insert of batch 2, the
  other every insert of batch 1.
\<close>

definition staged_450 :: "nat list" where
  "staged_450 = [0..<450]"

definition middle_batch_fails :: "nat \<Rightarrow> nat \<Rightarrow> bool" where
  "middle_batch_fails batch_no attempt = (batch_no \<noteq> 2)"

definition first_batch_fails :: "nat \<Rightarrow> nat \<Rightarrow> bool" where
  "first_batch_fails batch_no attempt = (batch_no \<noteq> 1)"

text \<open>
  Parsers for the examples: no text is a number, and the text at position \<open>i\<close> of an hourly
  series that starts at midnight of 1 January 2024 is hour \<open>i\<close> of that day.
\<close>

definition stub_pandas :: pandas where
  "stub_pandas =
     \<lparr>str_to_numeric = (\<lambda>s. NaN),
      time_to_numeric = (\<lambda>t. 0),
      to_datetime = (\<lambda>col i. case col ! i of
                        Str s \<Rightarrow> Some \<lparr>year = 2024, month = 1, day = 1, hour = i mod 24,
                                         minute = 0, second = 0\<rparr>
                      | Flt x \<Rightarrow> None
                      | Time t \<Rightarrow> t)\<rparr>"

text \<open>The columns of an hourly entry of the source API, and one row of it.\<close>

definition HOURLY_COLS :: "string list" where
  "HOURLY_COLS = [''time'', ''pm10'', ''pm2_5'', ''carbon_monoxide'', ''nitrogen_dioxide'',
                  ''ozone'', ''sulphur_dioxide'', ''uv_index'']"

definition reading ::
  "string \<Rightarrow> pyfloat \<Rightarrow> pyfloat \<Rightarrow> pyfloat \<Rightarrow> pyfloat \<Rightarrow> pyfloat \<Rightarrow> pyfloat \<Rightarrow> pyfloat
     \<Rightarrow> (string \<Rightarrow> cell)" where
  "reading t pm10 pm2_5 co no2 o3 so2 uv =
     (\<lambda>c. Flt NaN)(''time'' := Str t, ''pm10'' := Flt pm10, ''pm2_5'' := Flt pm2_5,
        ''carbon_monoxide'' := Flt co, ''nitrogen_dioxide'' := Flt no2, ''ozone'' := Flt o3,
        ''sulphur_dioxide'' := Flt so2, ''uv_index'' := Flt uv)"

text \<open>
  An artifact of three hours: the first lacks PM10, the second lacks PM2.5 and the UV
  index, the third lacks every measurement.
\<close>

definition gap_frame :: frame where
  "gap_frame =
     \<lparr>cols = HOURLY_COLS,
      rws = [reading ''2024-01-01T00:00'' NaN (Num 10) (Num 1) (Num 1) (Num 1) (Num 1) (Num 0),
             reading ''2024-01-01T01:00'' (Num 20) NaN (Num 1) (Num 1) (Num 1) (Num 1) NaN,
             reading ''2024-01-01T02:00'' NaN NaN NaN NaN NaN NaN NaN]\<rparr>"

definition gap_file :: artifact where
  "gap_file = \<lparr>stem = ''delhi_raw_20240101T000000Z'', payload = Hourly gap_frame\<rparr>"

text \<open>An artifact of one hour whose only measurement is the UV index.\<close>

definition uv_only_frame :: frame where
  "uv_only_frame =
     \<lparr>cols = HOURLY_COLS, rws = [reading ''2024-01-01T00:00'' NaN NaN NaN NaN NaN NaN (Num 5)]\<rparr>"

definition uv_only_file :: artifact where
  "uv_only_file = \<lparr>stem = ''mumbai_raw_20240101T000000Z'', payload = Hourly uv_only_frame\<rparr>"

text \<open>An artifact of one hour that lacks PM10 only.\<close>

definition pm10_gap_file :: artifact where
  "pm10_gap_file =
     \<lparr>stem = ''delhi_raw_20240101T000000Z'',
      payload = Hourly \<lparr>cols = HOURLY_COLS,
        rws = [reading ''2024-01-01T00:00'' NaN (Num 10) (Num 1) (Num 1) (Num 1) (Num 1)
                 (Num 0)]\<rparr>\<rparr>"

text \<open>A staged telecom table with the contract code \<open>-1\<close> in its second row.\<close>

definition codes_with_minus_one :: frame where
  "codes_with_minus_one =
     \<lparr>cols = [''tenure'', ''contract_type_code''],
      rws = [(\<lambda>c. Flt NaN)(''tenure'' := Flt (Num 5), ''contract_type_code'' := Flt (Num 0)),
             (\<lambda>c. Flt NaN)(''tenure'' := Flt (Num 7), ''contract_type_code'' := Flt (Num (- 1))),
             (\<lambda>c. Flt NaN)(''tenure'' := Flt (Num 9), ''contract_type_code'' := Flt (Num 2))]\<rparr>"

section \<open>Category label and risk tier\<close>

text \<open>
  Claim C4. The category label is a step function of the PM2.5 value with inclusive
  upper bounds: everything up to and including 50 (so 50 itself) is "Good", above 50 up
  to and including 100 is "Moderate", above 100 up to and including 200 is "Unhealthy",
  above 200 up to and including 300 is "Very Unhealthy", and everything strictly above
  300 is "Hazardous".
\<close>

theorem compute_aqi_bands:
  "compute_aqi (Num 50) = ''Good''
   \<and> (a \<le> 50 \<longrightarrow> compute_aqi (Num a) = ''Good'')
   \<and> (50 < b \<and> b \<le> 100 \<longrightarrow> compute_aqi (Num b) = ''Moderate'')
   \<and> (100 < c \<and> c \<le> 200 \<longrightarrow> compute_aqi (Num c) = ''Unhealthy'')
   \<and> (200 < d \<and> d \<le> 300 \<longrightarrow> compute_aqi (Num d) = ''Very Unhealthy'')
   \<and> (300 < e \<longrightarrow> compute_aqi (Num e) = ''Hazardous'')"
  by (simp add: compute_aqi_def py_le_def)

theorem compute_aqi_bands_witness:
  "compute_aqi (Num 50) = ''Good''
   \<and> compute_aqi (Num 12) = ''Good''
   \<and> compute_aqi (Num 100) = ''Moderate''
   \<and> compute_aqi (Num 200) = ''Unhealthy''
   \<and> compute_aqi (Num 300) = ''Very Unhealthy''
   \<and> compute_aqi (Num 301) = ''Hazardous''"
  using compute_aqi_bands [of 12 100 200 300 301] by simp

text \<open>
  Claim C5. The risk tier is a step function of the severity score with exclusive lower
  bounds: a score of exactly 400 is in the Moderate tier (label "Moderate Risk") and
  any score strictly above 400 is in the High tier (label "High Risk"); a score of
  exactly 200 is in the Low tier (label "Low Risk") and any score strictly above 200
  up to and including 400 is in the Moderate tier.
\<close>

theorem classify_risk_tiers:
  "classify_risk (Num 400) = ''Moderate Risk''
   \<and> classify_risk (Num 200) = ''Low Risk''
   \<and> (400 < a \<longrightarrow> classify_risk (Num a) = ''High Risk'')
   \<and> (200 < b \<and> b \<le> 400 \<longrightarrow> classify_risk (Num b) = ''Moderate Risk'')
   \<and> (c \<le> 200 \<longrightarrow> classify_risk (Num c) = ''Low Risk'')"
  by (simp add: classify_risk_def py_gt_def)

theorem classify_risk_tiers_witness:
  "classify_risk (Num 400) = ''Moderate Risk''
   \<and> classify_risk (Num 200) = ''Low Risk''
   \<and> classify_risk (Num 401) = ''High Risk''
   \<and> classify_risk (Num 201) = ''Moderate Risk''
   \<and> classify_risk (Num 0) = ''Low Risk''"
  using classify_risk_tiers [of 401 201 0] by simp

section \<open>Facts about frames and the transform\<close>

lemma and_then_Inr: "and_then m k = Inr y \<longleftrightarrow> (\<exists>x. m = Inr x \<and> k x = Inr y)"
  by (cases m) (simp_all add: and_then_def)

lemma and_then_simps: "and_then (Inr x) k = k x" "and_then (Inl e) k = Inl e"
  by (simp_all add: and_then_def)

lemma traverse_Inr:
  "traverse g xs = Inr ys \<Longrightarrow> list_all2 (\<lambda>x y. g x = Inr y) xs ys"
proof (induction xs arbitrary: ys)
  case Nil
  then show ?case by simp
next
  case (Cons x xs)
  then show ?case by (auto split: sum.splits)
qed

lemma assign_result_Inr:
  assumes "assign_result df c g = Inr df'"
  shows "cols df' = add_col (cols df) c"
    and "list_all2 (\<lambda>r r'. \<exists>v. g r = Inr v \<and> r' = r(c := v)) (rws df) (rws df')"
proof -
  from assms obtain rs where
    t: "traverse (\<lambda>r. and_then (g r) (\<lambda>v. Inr (r(c := v)))) (rws df) = Inr rs"
    and d: "df' = \<lparr>cols = add_col (cols df) c, rws = rs\<rparr>"
    by (auto simp add: assign_result_def and_then_Inr)
  from d show "cols df' = add_col (cols df) c" by simp
  from traverse_Inr [OF t]
  have "list_all2 (\<lambda>r r'. and_then (g r) (\<lambda>v. Inr (r(c := v))) = Inr r') (rws df) rs" .
  then have "list_all2 (\<lambda>r r'. \<exists>v. g r = Inr v \<and> r' = r(c := v)) (rws df) rs"
    by (rule list_all2_mono) (auto simp add: and_then_Inr)
  with d show "list_all2 (\<lambda>r r'. \<exists>v. g r = Inr v \<and> r' = r(c := v)) (rws df) (rws df')"
    by simp
qed

lemma column_apply_Inr:
  assumes "column_apply df dst src g = Inr df'"
  shows "src \<in> set (cols df)"
    and "cols df' = add_col (cols df) dst"
    and "list_all2 (\<lambda>r r'. \<exists>v. g (r src) = Inr v \<and> r' = r(dst := v)) (rws df) (rws df')"
proof -
  from assms show s: "src \<in> set (cols df)"
    by (simp add: column_apply_def split: if_splits)
  with assms have a: "assign_result df dst (\<lambda>r. g (r src)) = Inr df'"
    by (simp add: column_apply_def)
  from assign_result_Inr [OF a]
  show "cols df' = add_col (cols df) dst"
    and "list_all2 (\<lambda>r r'. \<exists>v. g (r src) = Inr v \<and> r' = r(dst := v)) (rws df) (rws df')"
    by simp_all
qed

lemma set_add_col: "set (add_col cs c) = insert c (set cs)"
  by (auto simp add: add_col_def)

lemma convert_column_rows:
  "rws (convert_column lib df c) =
     map (\<lambda>r. r(c := Flt (if c \<in> set (cols df) then to_numeric lib (r c) else Num 0))) (rws df)"
  by (simp add: convert_column_def assign_def)

lemma convert_column_cols: "set (cols (convert_column lib df c)) = insert c (set (cols df))"
  by (simp add: convert_column_def assign_def set_add_col)

lemma convert_fold_cols:
  "set (cols (foldl (convert_column lib) df cs)) = set (cols df) \<union> set cs"
  by (induction cs rule: rev_induct) (auto simp add: convert_column_cols)

lemma convert_fold_rows:
  "list_all2 (\<lambda>r r'. (\<forall>c\<in>set cs. \<exists>x. r' c = Flt x) \<and> (\<forall>c. c \<notin> set cs \<longrightarrow> r' c = r c))
     (rws df) (rws (foldl (convert_column lib) df cs))"
proof (induction cs rule: rev_induct)
  case Nil
  show ?case by (simp add: list_all2_same)
next
  case (snoc c cs)
  let ?D = "foldl (convert_column lib) df cs"
  let ?h = "\<lambda>r. r(c := Flt (if c \<in> set (cols ?D) then to_numeric lib (r c) else Num 0))"
  have "list_all2 (\<lambda>r r'. (\<forall>k\<in>set (cs @ [c]). \<exists>x. r' k = Flt x)
            \<and> (\<forall>k. k \<notin> set (cs @ [c]) \<longrightarrow> r' k = r k)) (rws df) (map ?h (rws ?D))"
    unfolding list_all2_map2
    by (rule list_all2_mono [OF snoc.IH]) auto
  then show ?case by (simp add: convert_column_rows)
qed

lemma convert_numeric_cols: "set (cols (convert_numeric lib df)) = set (cols df) \<union> set NUMERIC_COLS"
  by (simp add: convert_numeric_def convert_fold_cols)

lemma convert_numeric_rows:
  "list_all2 (\<lambda>r r'. (\<forall>c\<in>set NUMERIC_COLS. \<exists>x. r' c = Flt x)
                    \<and> (\<forall>c. c \<notin> set NUMERIC_COLS \<longrightarrow> r' c = r c))
     (rws df) (rws (convert_numeric lib df))"
  unfolding convert_numeric_def by (rule convert_fold_rows)

lemma list_all2_right:
  "list_all2 P xs ys \<Longrightarrow> y \<in> set ys \<Longrightarrow> \<exists>x\<in>set xs. P x y"
  by (induction rule: list_all2_induct) auto

lemma convert_numeric_floats:
  "r \<in> set (rws (convert_numeric lib df)) \<Longrightarrow> c \<in> set NUMERIC_COLS \<Longrightarrow> \<exists>x. r c = Flt x"
proof -
  assume "r \<in> set (rws (convert_numeric lib df))" and c: "c \<in> set NUMERIC_COLS"
  from list_all2_right [OF convert_numeric_rows this(1)] c show ?thesis by blast
qed

lemma dropna_all_Inr:
  assumes "dropna_all df among = Inr df'"
  shows "cols df' = cols df"
    and "rws df' = filter (\<lambda>r. \<not> list_all (\<lambda>c. cell_isna (r c)) among) (rws df)"
  using assms by (auto simp add: dropna_all_def split: if_splits)

lemma parse_time_Inr:
  assumes "parse_time lib df = Inr df'"
  shows "''time'' \<in> set (cols df)"
    and "set (cols df') = set (cols df)"
    and "list_all2 (\<lambda>r r'. \<exists>t. r' = r(''time'' := Time t)) (rws df) (rws df')"
proof -
  from assms show t: "''time'' \<in> set (cols df)"
    by (simp add: parse_time_def split: if_splits)
  let ?vs = "map (\<lambda>i. Time (to_datetime lib (map (\<lambda>r. r ''time'') (rws df)) i)) [0..<length (rws df)]"
  from assms t have d: "df' = assign_values df ''time'' ?vs"
    by (simp add: parse_time_def)
  from d t show "set (cols df') = set (cols df)"
    by (auto simp add: assign_values_def set_add_col)
  show "list_all2 (\<lambda>r r'. \<exists>t. r' = r(''time'' := Time t)) (rws df) (rws df')"
    unfolding d by (auto simp add: assign_values_def list_all2_conv_all_nth)
qed

lemma compute_severity_floats:
  assumes "row ''pm2_5'' = Some (Flt a)" "row ''pm10'' = Some (Flt b)"
    "row ''nitrogen_dioxide'' = Some (Flt c)" "row ''sulphur_dioxide'' = Some (Flt d)"
    "row ''carbon_monoxide'' = Some (Flt e)" "row ''ozone'' = Some (Flt f)"
  shows "compute_severity row = Inr (linear_combination a b c d e f)"
  using assms
  by (simp add: compute_severity_def plus_def times_def row_get_def as_float_def
      and_then_simps linear_combination_def)

lemma dt_hour_Inr: "dt_hour (Time t) = Inr v \<Longrightarrow> \<exists>h. v = Flt h"
  by (cases t) (auto simp add: dt_hour_def)

lemma pollutants_numeric: "set POLLUTANTS \<subseteq> set NUMERIC_COLS"
  by (simp add: POLLUTANTS_def NUMERIC_COLS_def)

lemma transform_city_file_steps:
  assumes "transform_city_file lib file = Inr out" "payload file = Hourly df0" "\<not> df_empty df0"
  obtains df3 df4 df5 df6 df7 where
    "dropna_all (convert_numeric lib (assign df0 ''city'' (\<lambda>r. Str (city_name (stem file)))))
        POLLUTANTS = Inr df3"
    "parse_time lib df3 = Inr df4"
    "column_apply df4 ''hour'' ''time'' dt_hour = Inr df5"
    "column_apply df5 ''AQI_category'' ''pm2_5''
        (\<lambda>v. and_then (as_float v) (\<lambda>x. Inr (Str (compute_aqi x)))) = Inr df6"
    "assign_result df6 ''severity''
        (\<lambda>r. and_then (compute_severity (series df6 r)) (\<lambda>s. Inr (Flt s))) = Inr df7"
    "column_apply df7 ''risk'' ''severity''
        (\<lambda>v. and_then (as_float v) (\<lambda>s. Inr (Str (classify_risk s)))) = Inr out"
  using assms unfolding transform_city_file_def
  by (simp add: and_then_Inr) blast

lemma derive_one:
  assumes fl: "r3 ''pm2_5'' = Flt a" "r3 ''pm10'' = Flt b" "r3 ''nitrogen_dioxide'' = Flt c"
      "r3 ''sulphur_dioxide'' = Flt d" "r3 ''carbon_monoxide'' = Flt e" "r3 ''ozone'' = Flt f"
    and cs: "set POLLUTANTS \<subseteq> set (cols df6)"
    and s4: "r4 = r3(''time'' := Time t)"
    and s5: "dt_hour (r4 ''time'') = Inr v5" "r5 = r4(''hour'' := v5)"
    and s6: "and_then (as_float (r5 ''pm2_5'')) (\<lambda>x. Inr (Str (compute_aqi x))) = Inr v6"
      "r6 = r5(''AQI_category'' := v6)"
    and s7: "and_then (compute_severity (series df6 r6)) (\<lambda>s. Inr (Flt s)) = Inr v7"
      "r7 = r6(''severity'' := v7)"
    and s8: "and_then (as_float (r7 ''severity'')) (\<lambda>s. Inr (Str (classify_risk s))) = Inr v8"
      "r8 = r7(''risk'' := v8)"
  shows "derived_row r3 r8"
proof -
  from s5(1) s4 obtain h where h: "v5 = Flt h"
    using dt_hour_Inr [of t v5] by auto
  have p5: "r5 ''pm2_5'' = Flt a" using fl s4 s5 by simp
  with s6(1) have v6: "v6 = Str (compute_aqi a)"
    by (simp add: as_float_def and_then_simps)
  have r6: "r6 ''pm2_5'' = Flt a" "r6 ''pm10'' = Flt b" "r6 ''nitrogen_dioxide'' = Flt c"
    "r6 ''sulphur_dioxide'' = Flt d" "r6 ''carbon_monoxide'' = Flt e" "r6 ''ozone'' = Flt f"
    using fl s4 s5(2) s6(2) by simp_all
  from cs have "''pm2_5'' \<in> set (cols df6)" "''pm10'' \<in> set (cols df6)"
    "''nitrogen_dioxide'' \<in> set (cols df6)" "''sulphur_dioxide'' \<in> set (cols df6)"
    "''carbon_monoxide'' \<in> set (cols df6)" "''ozone'' \<in> set (cols df6)"
    by (simp_all add: POLLUTANTS_def)
  with r6 have "compute_severity (series df6 r6) = Inr (linear_combination a b c d e f)"
    by (intro compute_severity_floats) (simp_all add: series_def)
  with s7(1) have v7: "v7 = Flt (linear_combination a b c d e f)"
    by (simp add: and_then_simps)
  with s7(2) s8(1) have v8: "v8 = Str (classify_risk (linear_combination a b c d e f))"
    by (simp add: as_float_def and_then_simps)
  have "r8 = r3(''time'' := Time t, ''hour'' := Flt h,
                  ''AQI_category'' := Str (compute_aqi a),
                  ''severity'' := Flt (linear_combination a b c d e f),
                  ''risk'' := Str (classify_risk (linear_combination a b c d e f)))"
    by (simp only: s8(2) s7(2) s6(2) s5(2) s4 h v6 v7 v8)
  with fl show ?thesis unfolding derived_row_def by blast
qed

lemma transform_city_file_rows:
  assumes "transform_city_file lib file = Inr out" "payload file = Hourly df0" "\<not> df_empty df0"
  shows "\<exists>df3.
     dropna_all (convert_numeric lib (assign df0 ''city'' (\<lambda>r. Str (city_name (stem file)))))
        POLLUTANTS = Inr df3
     \<and> list_all2 derived_row (rws df3) (rws out)
     \<and> set (cols out) = set (cols df0) \<union> {''city'', ''hour'', ''AQI_category'', ''severity'', ''risk''}
                         \<union> set NUMERIC_COLS"
proof -
  let ?df2 = "convert_numeric lib (assign df0 ''city'' (\<lambda>r. Str (city_name (stem file))))"
  from transform_city_file_steps [OF assms] obtain df3 df4 df5 df6 df7 where
    s3: "dropna_all ?df2 POLLUTANTS = Inr df3"
    and s4: "parse_time lib df3 = Inr df4"
    and s5: "column_apply df4 ''hour'' ''time'' dt_hour = Inr df5"
    and s6: "column_apply df5 ''AQI_category'' ''pm2_5''
        (\<lambda>v. and_then (as_float v) (\<lambda>x. Inr (Str (compute_aqi x)))) = Inr df6"
    and s7: "assign_result df6 ''severity''
        (\<lambda>r. and_then (compute_severity (series df6 r)) (\<lambda>s. Inr (Flt s))) = Inr df7"
    and s8: "column_apply df7 ''risk'' ''severity''
        (\<lambda>v. and_then (as_float v) (\<lambda>s. Inr (Str (classify_risk s)))) = Inr out"
    by this
  have c2: "set (cols ?df2) = set (cols df0) \<union> {''city''} \<union> set NUMERIC_COLS"
    by (auto simp add: convert_numeric_cols assign_def set_add_col)
  have c3: "set (cols df3) = set (cols ?df2)" using dropna_all_Inr(1) [OF s3] by simp
  have c4: "set (cols df4) = set (cols df3)" by (rule parse_time_Inr(2) [OF s4])
  have c5: "set (cols df5) = insert ''hour'' (set (cols df4))"
    using column_apply_Inr(2) [OF s5] by (simp add: set_add_col)
  have c6: "set (cols df6) = insert ''AQI_category'' (set (cols df5))"
    using column_apply_Inr(2) [OF s6] by (simp add: set_add_col)
  have c7: "set (cols df7) = insert ''severity'' (set (cols df6))"
    using assign_result_Inr(1) [OF s7] by (simp add: set_add_col)
  have c8: "set (cols out) = insert ''risk'' (set (cols df7))"
    using column_apply_Inr(2) [OF s8] by (simp add: set_add_col)
  have cs: "set POLLUTANTS \<subseteq> set (cols df6)"
    using pollutants_numeric c2 c3 c4 c5 c6 by auto
  have fl: "\<exists>x. r c = Flt x" if "r \<in> set (rws df3)" "c \<in> set NUMERIC_COLS" for r c
  proof -
    from that(1) have "r \<in> set (rws ?df2)" using dropna_all_Inr(2) [OF s3] by simp
    from convert_numeric_floats [OF this that(2)] show ?thesis .
  qed
  let ?R4 = "\<lambda>r r'. \<exists>t. r' = r(''time'' := Time t)"
  let ?R5 = "\<lambda>r r'. \<exists>v. dt_hour (r ''time'') = Inr v \<and> r' = r(''hour'' := v)"
  let ?R6 = "\<lambda>r r'. \<exists>v. and_then (as_float (r ''pm2_5'')) (\<lambda>x. Inr (Str (compute_aqi x))) = Inr v
                 \<and> r' = r(''AQI_category'' := v)"
  let ?R7 = "\<lambda>r r'. \<exists>v. and_then (compute_severity (series df6 r)) (\<lambda>s. Inr (Flt s)) = Inr v
                 \<and> r' = r(''severity'' := v)"
  let ?R8 = "\<lambda>r r'. \<exists>v. and_then (as_float (r ''severity'')) (\<lambda>s. Inr (Str (classify_risk s))) = Inr v
                 \<and> r' = r(''risk'' := v)"
  have "list_all2 (?R4 OO ?R5 OO ?R6 OO ?R7 OO ?R8) (rws df3) (rws out)"
    using parse_time_Inr(3) [OF s4] column_apply_Inr(3) [OF s5] column_apply_Inr(3) [OF s6]
      assign_result_Inr(2) [OF s7] column_apply_Inr(3) [OF s8]
    unfolding list.rel_compp by blast
  then have "list_all2 derived_row (rws df3) (rws out)"
  proof (rule list.rel_mono_strong)
    fix r3 r8
    assume m: "r3 \<in> set (rws df3)"
      and "(?R4 OO ?R5 OO ?R6 OO ?R7 OO ?R8) r3 r8"
    then obtain r4 r5 r6 r7 where "?R4 r3 r4" "?R5 r4 r5" "?R6 r5 r6" "?R7 r6 r7" "?R8 r7 r8"
      by blast
    then obtain t v5 v6 v7 v8 where
      st: "r4 = r3(''time'' := Time t)"
        "dt_hour (r4 ''time'') = Inr v5" "r5 = r4(''hour'' := v5)"
        "and_then (as_float (r5 ''pm2_5'')) (\<lambda>x. Inr (Str (compute_aqi x))) = Inr v6"
        "r6 = r5(''AQI_category'' := v6)"
        "and_then (compute_severity (series df6 r6)) (\<lambda>s. Inr (Flt s)) = Inr v7"
        "r7 = r6(''severity'' := v7)"
        "and_then (as_float (r7 ''severity'')) (\<lambda>s. Inr (Str (classify_risk s))) = Inr v8"
        "r8 = r7(''risk'' := v8)"
      by blast
    have n: "''pm2_5'' \<in> set NUMERIC_COLS" "''pm10'' \<in> set NUMERIC_COLS"
      "''nitrogen_dioxide'' \<in> set NUMERIC_COLS" "''sulphur_dioxide'' \<in> set NUMERIC_COLS"
      "''carbon_monoxide'' \<in> set NUMERIC_COLS" "''ozone'' \<in> set NUMERIC_COLS"
      by (simp_all add: NUMERIC_COLS_def)
    from fl [OF m n(1)] fl [OF m n(2)] fl [OF m n(3)] fl [OF m n(4)] fl [OF m n(5)] fl [OF m n(6)]
    obtain a b c d e f where
      "r3 ''pm2_5'' = Flt a" "r3 ''pm10'' = Flt b" "r3 ''nitrogen_dioxide'' = Flt c"
      "r3 ''sulphur_dioxide'' = Flt d" "r3 ''carbon_monoxide'' = Flt e" "r3 ''ozone'' = Flt f"
      by blast
    from derive_one [OF this cs st] show "derived_row r3 r8" .
  qed
  moreover have "set (cols out) = set (cols df0) \<union> {''city'', ''hour'', ''AQI_category'', ''severity'', ''risk''}
                         \<union> set NUMERIC_COLS"
    using c2 c3 c4 c5 c6 c7 c8 by auto
  ultimately show ?thesis using s3 by blast
qed

lemma linear_combination_nan:
  "a = NaN \<or> b = NaN \<or> c = NaN \<or> d = NaN \<or> e = NaN \<or> f = NaN \<Longrightarrow>
     linear_combination a b c d e f = NaN"
  by (auto simp add: linear_combination_def py_add_def py_mul_def split: pyfloat.splits)

lemma linear_combination_num:
  "linear_combination (Num a) (Num b) (Num c) (Num d) (Num e) (Num f) =
     Num (a * 5 + b * 3 + c * 4 + d * 4 + e * 2 + f * 3)"
  by (simp add: linear_combination_def py_add_def py_mul_def)

lemma derived_row_fields:
  assumes "derived_row r r'"
  shows "\<exists>a b c d e f h t.
      r' ''pm2_5'' = Flt a \<and> r' ''pm10'' = Flt b \<and> r' ''nitrogen_dioxide'' = Flt c
      \<and> r' ''sulphur_dioxide'' = Flt d \<and> r' ''carbon_monoxide'' = Flt e \<and> r' ''ozone'' = Flt f
      \<and> r' ''uv_index'' = r ''uv_index''
      \<and> r' ''time'' = Time t \<and> r' ''hour'' = Flt h
      \<and> r' ''AQI_category'' = Str (compute_aqi a)
      \<and> r' ''severity'' = Flt (linear_combination a b c d e f)
      \<and> r' ''risk'' = Str (classify_risk (linear_combination a b c d e f))"
proof -
  from assms obtain t h a b c d e f where
    fl: "r ''pm2_5'' = Flt a" "r ''pm10'' = Flt b" "r ''nitrogen_dioxide'' = Flt c"
      "r ''sulphur_dioxide'' = Flt d" "r ''carbon_monoxide'' = Flt e" "r ''ozone'' = Flt f"
    and r': "r' = r(''time'' := Time t, ''hour'' := Flt h,
                  ''AQI_category'' := Str (compute_aqi a),
                  ''severity'' := Flt (linear_combination a b c d e f),
                  ''risk'' := Str (classify_risk (linear_combination a b c d e f)))"
    unfolding derived_row_def by blast
  have "r' ''pm2_5'' = Flt a" "r' ''pm10'' = Flt b" "r' ''nitrogen_dioxide'' = Flt c"
    "r' ''sulphur_dioxide'' = Flt d" "r' ''carbon_monoxide'' = Flt e" "r' ''ozone'' = Flt f"
    "r' ''uv_index'' = r ''uv_index''" "r' ''time'' = Time t" "r' ''hour'' = Flt h"
    "r' ''AQI_category'' = Str (compute_aqi a)"
    "r' ''severity'' = Flt (linear_combination a b c d e f)"
    "r' ''risk'' = Str (classify_risk (linear_combination a b c d e f))"
    using fl by (simp_all add: r')
  then show ?thesis by blast
qed


lemma transform_city_file_cases:
  assumes "transform_city_file lib file = Inr out"
  shows "out = empty_frame \<or> (\<exists>df0. payload file = Hourly df0 \<and> \<not> df_empty df0)"
  using assms by (cases "payload file") (auto simp add: transform_city_file_def)

lemma transform_city_file_row:
  assumes "transform_city_file lib file = Inr out" "r' \<in> set (rws out)"
  shows "\<exists>r u. derived_row r r' \<and> r ''uv_index'' = Flt u"
proof -
  from transform_city_file_cases [OF assms(1)] assms(2)
  obtain df0 where p: "payload file = Hourly df0" "\<not> df_empty df0"
    by (auto simp add: empty_frame_def)
  let ?df2 = "convert_numeric lib (assign df0 ''city'' (\<lambda>r. Str (city_name (stem file))))"
  from transform_city_file_rows [OF assms(1) p] obtain df3 where
    d: "dropna_all ?df2 POLLUTANTS = Inr df3" "list_all2 derived_row (rws df3) (rws out)"
    by blast
  from list_all2_right [OF d(2) assms(2)] obtain r where
    r: "r \<in> set (rws df3)" "derived_row r r'" by blast
  from r(1) have "r \<in> set (rws ?df2)" using dropna_all_Inr(2) [OF d(1)] by simp
  moreover have "''uv_index'' \<in> set NUMERIC_COLS" by (simp add: NUMERIC_COLS_def)
  ultimately obtain u where "r ''uv_index'' = Flt u"
    using convert_numeric_floats by blast
  with r(2) show ?thesis by blast
qed



lemma column_values_Inr:
  "column_values cs res = Inr vs \<Longrightarrow> \<exists>df. res = Inr df \<and> vs = map (\<lambda>r. map r cs) (rws df)"
  by (cases res) (simp_all add: column_values_def)


lemmas eval_defs =
  transform_city_file_def gap_file_def gap_frame_def uv_only_file_def uv_only_frame_def
  pm10_gap_file_def HOURLY_COLS_def reading_def
  stub_pandas_def column_values_def df_empty_def assign_def convert_numeric_def
  convert_column_def NUMERIC_COLS_def POLLUTANTS_def add_col_def to_numeric_def
  dropna_all_def cell_isna_def isna_def parse_time_def assign_values_def and_then_def
  column_apply_def assign_result_def dt_hour_def as_float_def compute_aqi_def
  compute_severity_def series_def row_get_def times_def plus_def py_mul_def py_add_def
  py_le_def py_gt_def classify_risk_def upt_rec




section \<open>Transform: absent values\<close>

text \<open>
  Claim C10. The category label of an absent (NaN) PM2.5 value is "Hazardous" and the
  risk tier of a NaN severity is "Low Risk": every comparison with NaN is false, so both
  step functions fall through to their last branch. In the transform, every retained row
  whose PM2.5 cell is NaN is labelled "Hazardous", and every retained row with a NaN
  among the six contributing metrics has the severity NaN and the tier "Low Risk".
\<close>

theorem nan_falls_through:
  "compute_aqi NaN = ''Hazardous'' \<and> classify_risk NaN = ''Low Risk''
   \<and> (transform_city_file lib file = Inr out \<longrightarrow>
        (\<forall>r\<in>set (rws out).
           (r ''pm2_5'' = Flt NaN \<longrightarrow> r ''AQI_category'' = Str ''Hazardous'')
           \<and> (list_ex (\<lambda>c. r c = Flt NaN) POLLUTANTS \<longrightarrow>
                r ''severity'' = Flt NaN \<and> r ''risk'' = Str ''Low Risk'')))"
proof -
  have a: "compute_aqi NaN = ''Hazardous''" by (simp add: compute_aqi_def py_le_def)
  have b: "classify_risk NaN = ''Low Risk''" by (simp add: classify_risk_def py_gt_def)
  have "(r ''pm2_5'' = Flt NaN \<longrightarrow> r ''AQI_category'' = Str ''Hazardous'')
           \<and> (list_ex (\<lambda>c. r c = Flt NaN) POLLUTANTS \<longrightarrow>
                r ''severity'' = Flt NaN \<and> r ''risk'' = Str ''Low Risk'')"
    if t: "transform_city_file lib file = Inr out" and r: "r \<in> set (rws out)" for r
  proof -
    from transform_city_file_row [OF t r] obtain r0 where "derived_row r0 r" by blast
    from derived_row_fields [OF this] obtain a b c d e f where
      fl: "r ''pm2_5'' = Flt a" "r ''pm10'' = Flt b" "r ''nitrogen_dioxide'' = Flt c"
        "r ''sulphur_dioxide'' = Flt d" "r ''carbon_monoxide'' = Flt e" "r ''ozone'' = Flt f"
      and dv: "r ''AQI_category'' = Str (compute_aqi a)"
        "r ''severity'' = Flt (linear_combination a b c d e f)"
        "r ''risk'' = Str (classify_risk (linear_combination a b c d e f))"
      by blast
    have 1: "r ''pm2_5'' = Flt NaN \<longrightarrow> r ''AQI_category'' = Str ''Hazardous''"
      using fl(1) dv(1) a by auto
    have "linear_combination a b c d e f = NaN" if "list_ex (\<lambda>c. r c = Flt NaN) POLLUTANTS"
      using that fl by (intro linear_combination_nan) (auto simp add: POLLUTANTS_def)
    with dv b have 2: "list_ex (\<lambda>c. r c = Flt NaN) POLLUTANTS \<longrightarrow>
                r ''severity'' = Flt NaN \<and> r ''risk'' = Str ''Low Risk''"
      by simp
    from 1 2 show ?thesis ..
  qed
  with a b show ?thesis by blast
qed

theorem nan_falls_through_witness:
  "\<exists>out r1 r2. transform_city_file stub_pandas gap_file = Inr out \<and> rws out = [r1, r2]
     \<and> r1 ''pm10'' = Flt NaN \<and> list_ex (\<lambda>c. r1 c = Flt NaN) POLLUTANTS
     \<and> r1 ''severity'' = Flt NaN \<and> r1 ''risk'' = Str ''Low Risk''
     \<and> r2 ''pm2_5'' = Flt NaN \<and> r2 ''AQI_category'' = Str ''Hazardous''"
proof -
  have "column_values [''pm2_5'', ''pm10'']
      (transform_city_file stub_pandas gap_file) =
   Inr [[Flt (Num 10), Flt NaN], [Flt NaN, Flt (Num 20)]]"
    by (simp add: eval_defs)
  from column_values_Inr [OF this] obtain out where
    out: "transform_city_file stub_pandas gap_file = Inr out"
    and vs: "map (\<lambda>r. map r [''pm2_5'', ''pm10'']) (rws out) =
         [[Flt (Num 10), Flt NaN], [Flt NaN, Flt (Num 20)]]"
    by metis
  from vs obtain r1 r2 where rs: "rws out = [r1, r2]"
    and v: "r1 ''pm10'' = Flt NaN" "r2 ''pm2_5'' = Flt NaN"
    by (auto simp add: map_eq_Cons_conv)
  from v(1) have ex: "list_ex (\<lambda>c. r1 c = Flt NaN) POLLUTANTS"
    by (simp add: POLLUTANTS_def)
  from nan_falls_through [of stub_pandas gap_file out] out rs v ex
  have "r1 ''severity'' = Flt NaN \<and> r1 ''risk'' = Str ''Low Risk''"
    "r2 ''AQI_category'' = Str ''Hazardous''"
    by simp_all
  with out rs v ex show ?thesis by blast
qed

text \<open>
  Claim C2, evaluated on an input where the code departs from it. The artifact has one
  hour with PM2.5 = 10, the four gases = 1 and PM10 absent. The staged row keeps PM10
  absent, but its severity is NaN and its tier "Low Risk", where the zero default would
  give 5 * 10 + 3 * 0 + 4 + 4 + 2 + 3 = 63: the default of \<^verbatim>\<open>row.get(k, 0)\<close> applies to a
  missing key only, as the second evaluation of \<^verbatim>\<open>compute_severity\<close> shows, and the
  conversion loop has given every row all six keys.
\<close>

theorem severity_zero_default_missed:
  "column_values [''pm2_5'', ''pm10'', ''nitrogen_dioxide'', ''sulphur_dioxide'',
                  ''carbon_monoxide'', ''ozone'', ''severity'', ''risk'']
      (transform_city_file stub_pandas pm10_gap_file) =
     Inr [[Flt (Num 10), Flt NaN, Flt (Num 1), Flt (Num 1), Flt (Num 1), Flt (Num 1),
           Flt NaN, Str ''Low Risk'']]
   \<and> compute_severity
        [''pm2_5'' \<mapsto> Flt (Num 10), ''pm10'' \<mapsto> Flt NaN, ''nitrogen_dioxide'' \<mapsto> Flt (Num 1),
         ''sulphur_dioxide'' \<mapsto> Flt (Num 1), ''carbon_monoxide'' \<mapsto> Flt (Num 1),
         ''ozone'' \<mapsto> Flt (Num 1)] = Inr NaN
   \<and> compute_severity
        [''pm2_5'' \<mapsto> Flt (Num 10), ''nitrogen_dioxide'' \<mapsto> Flt (Num 1),
         ''sulphur_dioxide'' \<mapsto> Flt (Num 1), ''carbon_monoxide'' \<mapsto> Flt (Num 1),
         ''ozone'' \<mapsto> Flt (Num 1)] = Inr (Num 63)
   \<and> linear_combination (Num 10) (Num 0) (Num 1) (Num 1) (Num 1) (Num 1) = Num 63"
  by (simp add: eval_defs linear_combination_def)




section \<open>Transform: the staged file\<close>









section \<open>Validator: contract codes\<close>

lemma contract_type_code_range:
  "contract_type_code v \<in> {Num 0, Num 1, Num 2}"
  by (simp add: contract_type_code_def)

lemma contract_codes_ok_iff:
  "contract_codes_ok df \<longleftrightarrow>
     ''contract_type_code'' \<notin> set (cols df)
     \<or> list_all (\<lambda>r. cell_isna (r ''contract_type_code'')
                     \<or> r ''contract_type_code'' \<in> {Flt (Num (- 1)), Flt (Num 0), Flt (Num 1), Flt (Num 2)})
          (rws df)"
  by (auto simp add: contract_codes_ok_def contract_codes_present_def list_all_iff)

text \<open>
  Claim C9, evaluated on an input where the code departs from it. The staged table holds
  the contract code \<open>-1\<close>, which is outside the value set {0, 1, 2} of the transform's
  contract mapping, and the validator's check reports success: its set also admits \<open>-1\<close>.
\<close>

theorem contract_code_minus_one_accepted:
  "contract_codes_ok codes_with_minus_one
   \<and> Flt (Num (- 1)) \<in> contract_codes_present codes_with_minus_one
   \<and> Flt (Num (- 1)) \<notin> {Flt (Num 0), Flt (Num 1), Flt (Num 2)}"
  by (simp add: contract_codes_ok_def contract_codes_present_def codes_with_minus_one_def
      cell_isna_def isna_def)

section \<open>Extraction: retry bound and failure isolation\<close>

lemma str_nat_3: "str_nat 3 = ''3''"
  by (simp add: str_nat.simps [of 3] digit_def)

lemma requests_append: "requests (xs @ ys) = requests xs @ requests ys"
  by (induction xs rule: requests.induct) auto

lemma fetch_attempts_requests:
  "length (requests (snd (fetch_attempts api c attempt))) \<le> Suc MAX_RETRIES - attempt"
proof (induction api c attempt rule: fetch_attempts.induct)
  case (1 api c attempt)
  show ?case
  proof (cases "attempt > MAX_RETRIES")
    case True
    then show ?thesis by (subst fetch_attempts.simps) simp
  next
    case False
    show ?thesis
    proof (cases "api c attempt")
      case (Saved p)
      with False show ?thesis by (subst fetch_attempts.simps) simp
    next
      case OtherException
      with False show ?thesis by (subst fetch_attempts.simps) simp
    next
      case RequestException
      obtain r es where rec: "fetch_attempts api c (attempt + 1) = (r, es)"
        by (cases "fetch_attempts api c (attempt + 1)")
      from "1.IH" [OF False RequestException] rec
      have "length (requests es) \<le> MAX_RETRIES - attempt" by simp
      with False RequestException rec show ?thesis
        by (subst fetch_attempts.simps) (auto simp add: requests_append)
    qed
  qed
qed

lemma exhausts_iff:
  "exhausts api c \<longleftrightarrow>
     api c 1 = RequestException \<and> api c 2 = RequestException \<and> api c 3 = RequestException"
proof -
  have "[1..<Suc MAX_RETRIES] = [1, 2, 3]"
    by (simp add: MAX_RETRIES_def upt_rec)
  then show ?thesis by (simp add: exhausts_def)
qed

lemma fetch_city_exhausted:
  assumes "exhausts api c"
  shows "fetch_city api c lat lon =
           (Inr (failure_record c),
            [Request c 1, Sleep 1, Request c 2, Sleep 2, Request c 3])"
proof -
  from assms have a: "api c 1 = RequestException" "api c 2 = RequestException"
    "api c 3 = RequestException" "api c (Suc 0) = RequestException"
    by (simp_all add: exhausts_iff)
  have 4: "fetch_attempts api c 4 = (Inr (failure_record c), [])"
    by (subst fetch_attempts.simps) (simp add: MAX_RETRIES_def failure_record_def str_nat_3)
  have 3: "fetch_attempts api c 3 = (Inr (failure_record c), [Request c 3])"
    by (subst fetch_attempts.simps) (simp add: MAX_RETRIES_def a 4)
  have 2: "fetch_attempts api c 2 = (Inr (failure_record c), [Request c 2, Sleep 2, Request c 3])"
    by (subst fetch_attempts.simps) (simp add: MAX_RETRIES_def a 3)
  have "fetch_attempts api c 1 =
      (Inr (failure_record c), [Request c 1, Sleep 1, Request c 2, Sleep 2, Request c 3])"
    using 2 by (subst fetch_attempts.simps) (simp add: MAX_RETRIES_def a numeral_2_eq_2)
  then show ?thesis by (simp only: fetch_city_def)
qed

lemma fetch_city_requests:
  "length (requests (snd (fetch_city api c lat lon))) \<le> MAX_RETRIES"
  using fetch_attempts_requests [of api c 1] by (simp only: fetch_city_def diff_Suc_1 One_nat_def diff_Suc_Suc diff_zero)

text \<open>
  Claim C7. For every entity, fetch makes at most the configured maximum number of
  attempts, which is 3, against the source API. When all of them fail, the run of the
  fetch is: request, sleep 1, request, sleep 2, request. The total sleep is the sum of
  the backoff schedule that starts at the base delay of one second and doubles with each
  attempt, over the first two attempts, and no sleep follows the final attempt.
\<close>

theorem fetch_city_retry_bound:
  "length (requests (snd (fetch_city api c lat lon))) \<le> MAX_RETRIES
   \<and> MAX_RETRIES = 3
   \<and> (exhausts api c \<longrightarrow>
        snd (fetch_city api c lat lon) =
          [Request c 1, Sleep 1, Request c 2, Sleep 2, Request c 3]
        \<and> sum_list (sleeps (snd (fetch_city api c lat lon))) = (\<Sum>k<MAX_RETRIES - 1. 1 * 2 ^ k))"
proof -
  have "MAX_RETRIES = 3" by (simp add: MAX_RETRIES_def)
  moreover have "(\<Sum>k<MAX_RETRIES - 1. 1 * 2 ^ k) = (3::real)"
    by (simp add: MAX_RETRIES_def lessThan_Suc numeral_2_eq_2)
  ultimately show ?thesis
    by (simp add: fetch_city_requests fetch_city_exhausted)
qed





theorem fetch_city_retry_bound_witness:
  "exhausts mumbai_down ''Mumbai''
   \<and> snd (fetch_city mumbai_down ''Mumbai'' 19.0760 72.8777) =
       [Request ''Mumbai'' 1, Sleep 1, Request ''Mumbai'' 2, Sleep 2, Request ''Mumbai'' 3]
   \<and> sum_list (sleeps (snd (fetch_city mumbai_down ''Mumbai'' 19.0760 72.8777))) = 3"
proof -
  have e: "exhausts mumbai_down ''Mumbai''"
    by (simp add: exhausts_iff mumbai_down_def)
  have "(\<Sum>k<MAX_RETRIES - 1. 1 * 2 ^ k) = (3::real)"
    by (simp add: MAX_RETRIES_def lessThan_Suc numeral_2_eq_2)
  with e fetch_city_retry_bound [of mumbai_down "''Mumbai''" "19.0760" "72.8777"]
  show ?thesis by simp
qed


section \<open>Load: batching and partial failure\<close>

lemma inserts_append: "inserts (xs @ ys) = inserts xs @ inserts ys"
  by (induction xs rule: inserts.induct) auto

lemma insert_attempts_all_fail:
  assumes "0 \<le> LOAD_BACKOFF_SECONDS cfg"
    and "\<And>k. attempt \<le> k \<Longrightarrow> int k \<le> LOAD_MAX_RETRIES cfg \<Longrightarrow> \<not> sink n k"
  shows "fst (insert_attempts cfg sink n b attempt) = Inr False
       \<and> inserts (snd (insert_attempts cfg sink n b attempt)) =
           replicate (nat (LOAD_MAX_RETRIES cfg + 1) - attempt) (n, b)"
  using assms
proof (induction cfg sink n b attempt rule: insert_attempts.induct)
  case (1 cfg sink n b attempt)
  show ?case
  proof (cases "int attempt \<le> LOAD_MAX_RETRIES cfg")
    case False
    then show ?thesis by (subst (1 2) insert_attempts.simps) simp
  next
    case True
    with "1.prems"(2) [of attempt] have ns: "\<not> sink n attempt" by simp
    show ?thesis
    proof (cases "int (attempt + 1) > LOAD_MAX_RETRIES cfg")
      case last: True
      with True have "nat (LOAD_MAX_RETRIES cfg + 1) - attempt = Suc 0" by linarith
      with True ns last show ?thesis
        by (subst (1 2) insert_attempts.simps) simp
    next
      case more: False
      have nb: "\<not> LOAD_BACKOFF_SECONDS cfg < 0" using "1.prems"(1) by simp
      obtain r es where rec: "insert_attempts cfg sink n b (attempt + 1) = (r, es)"
        by (cases "insert_attempts cfg sink n b (attempt + 1)")
      from "1.IH" [OF True ns more nb "1.prems"(1)] "1.prems"(2) rec
      have ih: "r = Inr False"
        "inserts es = replicate (nat (LOAD_MAX_RETRIES cfg + 1) - (attempt + 1)) (n, b)"
        by simp_all
      from True have "nat (LOAD_MAX_RETRIES cfg + 1) - attempt
          = Suc (nat (LOAD_MAX_RETRIES cfg + 1) - (attempt + 1))" by linarith
      with True ns more nb rec ih show ?thesis
        by (subst (1 2) insert_attempts.simps) simp
    qed
  qed
qed

lemma insert_attempts_some_ok:
  assumes "0 \<le> LOAD_BACKOFF_SECONDS cfg"
    and "attempt \<le> k" "int k \<le> LOAD_MAX_RETRIES cfg" "sink n k"
  shows "fst (insert_attempts cfg sink n b attempt) = Inr True
       \<and> set (inserts (snd (insert_attempts cfg sink n b attempt))) = {(n, b)}"
  using assms
proof (induction cfg sink n b attempt rule: insert_attempts.induct)
  case (1 cfg sink n b attempt)
  from "1.prems" have True: "int attempt \<le> LOAD_MAX_RETRIES cfg" by simp
  show ?case
  proof (cases "sink n attempt")
    case ok: True
    with True show ?thesis by (subst (1 2) insert_attempts.simps) simp
  next
    case ns: False
    with "1.prems" have lt: "attempt + 1 \<le> k" by (cases "attempt = k") auto
    with "1.prems" have more: "\<not> int (attempt + 1) > LOAD_MAX_RETRIES cfg" by simp
    have nb: "\<not> LOAD_BACKOFF_SECONDS cfg < 0" using "1.prems"(1) by simp
    obtain r es where rec: "insert_attempts cfg sink n b (attempt + 1) = (r, es)"
      by (cases "insert_attempts cfg sink n b (attempt + 1)")
    from "1.IH" [OF True ns more nb "1.prems"(1) lt "1.prems"(3,4)] rec
    have "r = Inr True" "set (inserts es) = {(n, b)}" by simp_all
    with True ns more nb rec show ?thesis
      by (subst (1 2) insert_attempts.simps) simp
  qed
qed

lemma insert_attempts_fail:
  assumes "0 \<le> LOAD_MAX_RETRIES cfg" "0 \<le> LOAD_BACKOFF_SECONDS cfg"
    and "list_all (\<lambda>a. \<not> sink n a) [0..<nat (LOAD_MAX_RETRIES cfg + 1)]"
  shows "fst (insert_attempts cfg sink n b 0) = Inr False"
    and "inserts (snd (insert_attempts cfg sink n b 0)) =
           replicate (nat (LOAD_MAX_RETRIES cfg + 1)) (n, b)"
proof -
  have "\<not> sink n k" if "int k \<le> LOAD_MAX_RETRIES cfg" for k
  proof -
    from that assms(1) have "k < nat (LOAD_MAX_RETRIES cfg + 1)" by linarith
    with assms(3) show ?thesis by (simp add: list_all_iff)
  qed
  with insert_attempts_all_fail [of cfg 0 sink n b] assms(2)
  show "fst (insert_attempts cfg sink n b 0) = Inr False"
    and "inserts (snd (insert_attempts cfg sink n b 0)) =
           replicate (nat (LOAD_MAX_RETRIES cfg + 1)) (n, b)"
    by simp_all
qed

lemma insert_attempts_ok:
  assumes "0 \<le> LOAD_BACKOFF_SECONDS cfg"
    and "list_ex (sink n) [0..<nat (LOAD_MAX_RETRIES cfg + 1)]"
  shows "fst (insert_attempts cfg sink n b 0) = Inr True"
    and "set (inserts (snd (insert_attempts cfg sink n b 0))) = {(n, b)}"
proof -
  from assms(2) obtain k where k: "k < nat (LOAD_MAX_RETRIES cfg + 1)" "sink n k"
    by (auto simp add: list_ex_iff)
  from k(1) have le: "int k \<le> LOAD_MAX_RETRIES cfg" by linarith
  have z: "0 \<le> k" by simp
  from insert_attempts_some_ok
    [where cfg = cfg and attempt = 0 and k = k and sink = sink and n = n and b = b,
     OF assms(1) z le k(2)]
  show "fst (insert_attempts cfg sink n b 0) = Inr True"
    and "set (inserts (snd (insert_attempts cfg sink n b 0))) = {(n, b)}"
    by simp_all
qed

lemma insert_from_450:
  fixes records :: "'r list"
  assumes len: "length records = 450"
    and cfg: "BATCH_SIZE cfg = 200"
    and r1: "insert_attempts cfg sink 1 (take 200 records) 0 = (Inr ok1, es1)"
    and r2: "insert_attempts cfg sink 2 (take 200 (drop 200 records)) 0 = (Inr ok2, es2)"
    and r3: "insert_attempts cfg sink 3 (drop 400 records) 0 = (Inr ok3, es3)"
  shows "insert_batches cfg sink records =
           (Inr ((if ok1 then 200 else 0) + (if ok2 then 200 else 0) + (if ok3 then 50 else 0)),
            es1 @ es2 @ es3)"
proof -
  have r1': "insert_attempts cfg sink (Suc 0) (take 200 records) 0 = (Inr ok1, es1)"
    using r1 by simp
  have r2': "insert_attempts cfg sink (Suc (Suc 0)) (take 200 (drop 200 records)) 0 = (Inr ok2, es2)"
    using r2 by (simp add: numeral_2_eq_2)
  have r3': "insert_attempts cfg sink (Suc (Suc (Suc 0))) (drop 400 records) 0 = (Inr ok3, es3)"
    using r3 by (simp add: numeral_3_eq_3)
  have 3: "insert_from cfg sink records 200 600 k = (Inr k, [])" for k
    by (subst insert_from.simps) (simp add: len)
  have 2: "insert_from cfg sink records 200 400 k = (Inr ((if ok3 then 50 else 0) + k), es3)" for k
    by (subst insert_from.simps) (simp add: len 3 r3 r3' Let_def)
  have 1: "insert_from cfg sink records 200 200 k =
      (Inr ((if ok2 then 200 else 0) + (if ok3 then 50 else 0) + k), es2 @ es3)" for k
    by (subst insert_from.simps) (simp add: len 2 r2 r2' Let_def)
  have 0: "insert_from cfg sink records 200 0 0 =
      (Inr ((if ok1 then 200 else 0) + (if ok2 then 200 else 0) + (if ok3 then 50 else 0)),
       es1 @ es2 @ es3)"
    by (subst insert_from.simps) (simp add: len 1 r1 r1' Let_def)
  show ?thesis
    using 0 by (simp add: insert_batches_def len cfg)
qed

lemma filter_other_batch:
  "set xs = {(n, b)} \<Longrightarrow> n \<noteq> m \<Longrightarrow> filter (\<lambda>p. fst p = m) xs = []"
  by (auto simp add: filter_empty_conv)

lemma partition_450:
  assumes "length records = 450"
  shows "take 200 records @ take 200 (drop 200 records) @ drop 400 records = records"
    "length (take 200 records) = 200" "length (take 200 (drop 200 records)) = 200"
    "length (drop 400 records) = 50"
proof -
  have "drop 400 records = drop 200 (drop 200 records)" by simp
  then show "take 200 records @ take 200 (drop 200 records) @ drop 400 records = records"
    by (simp only: append_take_drop_id)
qed (simp_all add: assms)

lemma filter_replicate_same: "filter (\<lambda>p. fst p = n) (replicate k (n, b)) = replicate k (n, b)"
  by (induction k) simp_all

text \<open>
  Claim C3 (as amended). For every staged table of 450 records with batch size 200, the
  load cuts the records, in their order, into three batches of 200, 200 and 50 records.
  When every attempt on the middle batch fails, so that its retries are used up, and
  the other two batches succeed within their attempts, all three batches are attempted,
  the middle one once more than the configured number of retries, \<^verbatim>\<open>insert_batches\<close>
  returns the inserted count 250, and \<^verbatim>\<open>load_data\<close> prints 250 of 450 and returns nothing.
  No list of failed batches is returned.
\<close>

theorem load_450_middle_batch_fails:
  assumes len: "length (normalize_and_prepare df) = 450"
    and cfg: "BATCH_SIZE cfg = 200" "0 \<le> LOAD_MAX_RETRIES cfg" "0 \<le> LOAD_BACKOFF_SECONDS cfg"
    and mid: "list_all (\<lambda>a. \<not> sink 2 a) [0..<nat (LOAD_MAX_RETRIES cfg + 1)]"
    and others: "list_ex (sink 1) [0..<nat (LOAD_MAX_RETRIES cfg + 1)]"
      "list_ex (sink 3) [0..<nat (LOAD_MAX_RETRIES cfg + 1)]"
  shows "\<exists>evs.
      insert_batches cfg sink (normalize_and_prepare df) = (Inr 250, evs)
      \<and> load_data cfg sink normalize_and_prepare (Some df) = (Inr (), evs @ [Summary 250 450])
      \<and> set (inserts evs) =
           {(1, take 200 (normalize_and_prepare df)),
            (2, take 200 (drop 200 (normalize_and_prepare df))),
            (3, drop 400 (normalize_and_prepare df))}
      \<and> length (filter (\<lambda>p. fst p = 2) (inserts evs)) = nat (LOAD_MAX_RETRIES cfg + 1)
      \<and> take 200 (normalize_and_prepare df) @ take 200 (drop 200 (normalize_and_prepare df))
            @ drop 400 (normalize_and_prepare df) = normalize_and_prepare df
      \<and> length (take 200 (normalize_and_prepare df)) = 200
      \<and> length (take 200 (drop 200 (normalize_and_prepare df))) = 200
      \<and> length (drop 400 (normalize_and_prepare df)) = 50"
proof -
  define records where "records = normalize_and_prepare df"
  define b1 where "b1 = take 200 records"
  define b2 where "b2 = take 200 (drop 200 records)"
  define b3 where "b3 = drop 400 records"
  define m where "m = nat (LOAD_MAX_RETRIES cfg + 1)"
  obtain r1 es1 where a1: "insert_attempts cfg sink 1 b1 0 = (r1, es1)"
    by (cases "insert_attempts cfg sink 1 b1 0")
  obtain r2 es2 where a2: "insert_attempts cfg sink 2 b2 0 = (r2, es2)"
    by (cases "insert_attempts cfg sink 2 b2 0")
  obtain r3 es3 where a3: "insert_attempts cfg sink 3 b3 0 = (r3, es3)"
    by (cases "insert_attempts cfg sink 3 b3 0")
  from insert_attempts_ok [of cfg sink 1 b1, OF cfg(3) others(1)] a1
  have o1: "r1 = Inr True" "set (inserts es1) = {(1, b1)}" by simp_all
  from insert_attempts_ok [of cfg sink 3 b3, OF cfg(3) others(2)] a3
  have o3: "r3 = Inr True" "set (inserts es3) = {(3, b3)}" by simp_all
  from insert_attempts_fail [of cfg sink 2 b2, OF cfg(2,3) mid] a2
  have o2: "r2 = Inr False" "inserts es2 = replicate m (2, b2)" by (simp_all add: m_def)
  have mpos: "0 < m" using cfg(2) by (simp add: m_def)
  define evs where "evs = es1 @ es2 @ es3"
  have len': "length records = 450" using len by (simp add: records_def)
  have ib: "insert_batches cfg sink records = (Inr 250, evs)"
    using insert_from_450 [OF len' cfg(1), of sink True es1 False es2 True es3] a1 a2 a3 o1 o2 o3
    by (simp add: b1_def b2_def b3_def evs_def)
  have ld: "load_data cfg sink normalize_and_prepare (Some df) = (Inr (), evs @ [Summary 250 450])"
    using ib len by (simp add: load_data_def records_def)
  have ins: "inserts evs = inserts es1 @ replicate m (2, b2) @ inserts es3"
    by (simp add: evs_def inserts_append o2)
  have st: "set (inserts evs) = {(1, b1), (2, b2), (3, b3)}"
    using o1 o3 mpos by (auto simp add: ins)
  have f1: "filter (\<lambda>p. fst p = 2) (inserts es1) = []"
    using filter_other_batch [OF o1(2)] by simp
  have f3: "filter (\<lambda>p. fst p = 2) (inserts es3) = []"
    using filter_other_batch [OF o3(2)] by simp
  have cnt: "length (filter (\<lambda>p. fst p = 2) (inserts evs)) = m"
    by (simp add: ins f1 f3 filter_replicate_same)
  from ib ld st cnt partition_450 [OF len'] show ?thesis
    unfolding b1_def b2_def b3_def records_def m_def by blast
qed

theorem load_450_middle_batch_fails_witness:
  "length staged_450 = 450
   \<and> BATCH_SIZE default_config = 200 \<and> 0 \<le> LOAD_MAX_RETRIES default_config
   \<and> 0 \<le> LOAD_BACKOFF_SECONDS default_config
   \<and> list_all (\<lambda>a. \<not> middle_batch_fails 2 a) [0..<nat (LOAD_MAX_RETRIES default_config + 1)]
   \<and> list_ex (middle_batch_fails 1) [0..<nat (LOAD_MAX_RETRIES default_config + 1)]
   \<and> list_ex (middle_batch_fails 3) [0..<nat (LOAD_MAX_RETRIES default_config + 1)]
   \<and> (\<exists>evs. insert_batches default_config middle_batch_fails staged_450 = (Inr 250, evs)
          \<and> load_data default_config middle_batch_fails (\<lambda>df. df) (Some staged_450) =
                (Inr (), evs @ [Summary 250 450])
          \<and> length (filter (\<lambda>p. fst p = 2) (inserts evs)) = 3)"
proof -
  have n: "nat (LOAD_MAX_RETRIES default_config + 1) = 3"
    by (simp add: default_config_def)
  have h: "length staged_450 = 450" "BATCH_SIZE default_config = 200"
    "0 \<le> LOAD_MAX_RETRIES default_config" "0 \<le> LOAD_BACKOFF_SECONDS default_config"
    "list_all (\<lambda>a. \<not> middle_batch_fails 2 a) [0..<nat (LOAD_MAX_RETRIES default_config + 1)]"
    "list_ex (middle_batch_fails 1) [0..<nat (LOAD_MAX_RETRIES default_config + 1)]"
    "list_ex (middle_batch_fails 3) [0..<nat (LOAD_MAX_RETRIES default_config + 1)]"
    by (simp_all add: n staged_450_def default_config_def middle_batch_fails_def upt_rec)
  from load_450_middle_batch_fails [of "\<lambda>df. df" staged_450 default_config middle_batch_fails, OF h]
  obtain evs where "insert_batches default_config middle_batch_fails staged_450 = (Inr 250, evs)"
    "load_data default_config middle_batch_fails (\<lambda>df. df) (Some staged_450) =
                (Inr (), evs @ [Summary 250 450])"
    "length (filter (\<lambda>p. fst p = 2) (inserts evs)) = 3"
    unfolding n by blast
  with h show ?thesis by blast
qed

text \<open>
  The value returned by the load does not identify the failed batch: on the 450 example
  records the load returns the same values when the middle batch fails for good as when
  the first batch does.
\<close>

theorem load_report_counterexample:
  "fst (insert_batches default_config middle_batch_fails staged_450) = Inr 250
   \<and> fst (insert_batches default_config first_batch_fails staged_450) = Inr 250
   \<and> fst (load_data default_config middle_batch_fails (\<lambda>df. df) (Some staged_450)) =
       fst (load_data default_config first_batch_fails (\<lambda>df. df) (Some staged_450))"
proof -
  have len: "length staged_450 = 450" by (simp add: staged_450_def)
  have n: "nat (LOAD_MAX_RETRIES default_config + 1) = 3"
    by (simp add: default_config_def)
  have cfg: "BATCH_SIZE default_config = 200"
    "0 \<le> LOAD_MAX_RETRIES default_config" "0 \<le> LOAD_BACKOFF_SECONDS default_config"
    by (simp_all add: default_config_def)
  have ok: "list_ex (middle_batch_fails 1) [0..<nat (LOAD_MAX_RETRIES default_config + 1)]"
    "list_ex (middle_batch_fails 3) [0..<nat (LOAD_MAX_RETRIES default_config + 1)]"
    "list_ex (first_batch_fails 2) [0..<nat (LOAD_MAX_RETRIES default_config + 1)]"
    "list_ex (first_batch_fails 3) [0..<nat (LOAD_MAX_RETRIES default_config + 1)]"
    by (simp_all add: n middle_batch_fails_def first_batch_fails_def upt_rec)
  have bad: "list_all (\<lambda>a. \<not> middle_batch_fails 2 a) [0..<nat (LOAD_MAX_RETRIES default_config + 1)]"
    "list_all (\<lambda>a. \<not> first_batch_fails 1 a) [0..<nat (LOAD_MAX_RETRIES default_config + 1)]"
    by (simp_all add: n middle_batch_fails_def first_batch_fails_def upt_rec)
  have res: "fst (insert_batches default_config sink staged_450) =
      Inr ((if ok1 then 200 else 0) + (if ok2 then 200 else 0) + (if ok3 then 50 else 0))"
    if a1: "fst (insert_attempts default_config sink 1 (take 200 staged_450) 0) = Inr ok1"
      and a2: "fst (insert_attempts default_config sink 2 (take 200 (drop 200 staged_450)) 0) = Inr ok2"
      and a3: "fst (insert_attempts default_config sink 3 (drop 400 staged_450) 0) = Inr ok3"
    for sink ok1 ok2 ok3
  proof -
    obtain es1 es2 es3 where
      "insert_attempts default_config sink 1 (take 200 staged_450) 0 = (Inr ok1, es1)"
      "insert_attempts default_config sink 2 (take 200 (drop 200 staged_450)) 0 = (Inr ok2, es2)"
      "insert_attempts default_config sink 3 (drop 400 staged_450) 0 = (Inr ok3, es3)"
      using a1 a2 a3 by (metis prod.collapse)
    from insert_from_450 [OF len cfg(1) this] show ?thesis by simp
  qed
  have m: "fst (insert_batches default_config middle_batch_fails staged_450) = Inr 250"
    using res [of middle_batch_fails True False True,
        OF insert_attempts_ok(1) [of default_config middle_batch_fails 1, OF cfg(3) ok(1)]
           insert_attempts_fail(1) [of default_config middle_batch_fails 2, OF cfg(2,3) bad(1)]
           insert_attempts_ok(1) [of default_config middle_batch_fails 3, OF cfg(3) ok(2)]]
    by simp
  have f: "fst (insert_batches default_config first_batch_fails staged_450) = Inr 250"
    using res [of first_batch_fails False True True,
        OF insert_attempts_fail(1) [of default_config first_batch_fails 1, OF cfg(2,3) bad(2)]
           insert_attempts_ok(1) [of default_config first_batch_fails 2, OF cfg(3) ok(3)]
           insert_attempts_ok(1) [of default_config first_batch_fails 3, OF cfg(3) ok(4)]]
    by simp
  have "fst (load_data default_config sink (\<lambda>df. df) (Some staged_450)) = Inr ()"
    if "fst (insert_batches default_config sink staged_450) = Inr 250" for sink
    using that by (cases "insert_batches default_config sink staged_450") (simp add: load_data_def)
  with m f show ?thesis by simp
qed

end
